theory Spec2Isabelle
  imports Complex_Main "HOL-Library.Word"
begin

unbundle bit_operations_syntax

section \<open>Values, errors and the matrix header\<close>

text \<open>
  The sources bind Ruby objects to OpenCV's \<open>cv::Mat\<close>. A \<open>double\<close> is modelled by the
  real number it denotes (rounding of arithmetic results to double precision, infinities and
  NaN are outside the model). A Ruby \<open>VALUE\<close> is one of the objects the functions of
  \<open>mat.cpp\<close> and \<open>mat_imgproc.cpp\<close> inspect; the Ruby class of a matrix wrapper
  (\<open>Cv::Mat\<close> or a subclass of it) is not represented.
\<close>

datatype Scalar = Scalar real real real real

fun sc_nth :: "Scalar \<Rightarrow> nat \<Rightarrow> real option" where
  "sc_nth (Scalar a b c d) i =
     (if i = 0 then Some a else if i = 1 then Some b
      else if i = 2 then Some c else if i = 3 then Some d else None)"

datatype rb_value =
    Qnil
  | Fixnum int
  | RFloat real
  | RString string
  | MatObj nat
  | ScalarObj Scalar
  | RectObj int int int int
  | RArray "rb_value list"

datatype cv_exception = CvException string

datatype rb_error =
    ArgumentError
  | TypeError
  | RangeError
  | NoMemError string
  | StandardError string
  | CvError cv_exception
  | Undefined

text \<open>
  \<open>Undefined\<close> stands for undefined behaviour of the C++ code: a write outside the
  buffer, a read of an element outside it or of one never written, a null or dangling
  \<open>cv::Mat*\<close>, a cast of a value too large for \<open>int\<close>.
\<close>

definition INT_MIN :: int where "INT_MIN = - (2 ^ 31)"
definition INT_MAX :: int where "INT_MAX = 2 ^ 31 - 1"

definition trunc0 :: "real \<Rightarrow> int" where
  "trunc0 x = (if 0 \<le> x then \<lfloor>x\<rfloor> else \<lceil>x\<rceil>)"

text \<open>
  \<open>NUM2INT\<close> and \<open>NUM2DBL\<close> are the conversions of the Ruby C interface: a number
  converts (a float to an integer by dropping its fraction, an integer to the \<open>double\<close>
  of the same value), a value outside \<open>int\<close> is a \<open>RangeError\<close>, and an object
  that is not a number is a \<open>TypeError\<close>.
\<close>

fun NUM2INT :: "rb_value \<Rightarrow> rb_error + int" where
  "NUM2INT (Fixnum i) = (if INT_MIN \<le> i \<and> i \<le> INT_MAX then Inr i else Inl RangeError)"
| "NUM2INT (RFloat x) =
     (if INT_MIN \<le> trunc0 x \<and> trunc0 x \<le> INT_MAX then Inr (trunc0 x) else Inl RangeError)"
| "NUM2INT _ = Inl TypeError"

fun NUM2DBL :: "rb_value \<Rightarrow> rb_error + real" where
  "NUM2DBL (Fixnum i) = Inr (real_of_int i)"
| "NUM2DBL (RFloat x) = Inr x"
| "NUM2DBL _ = Inl TypeError"

fun is_Numeric :: "rb_value \<Rightarrow> bool" where
  "is_Numeric (Fixnum _) = True"
| "is_Numeric (RFloat _) = True"
| "is_Numeric _ = False"

fun NIL_P :: "rb_value \<Rightarrow> bool" where
  "NIL_P Qnil = True"
| "NIL_P _ = False"

subsection \<open>Element types\<close>

text \<open>
  The depth and type constants come from OpenCV's headers: a type code holds the depth in
  its three low bits and the channel count minus one in the nine bits above them.
\<close>

definition CV_8U :: int where "CV_8U = 0"
definition CV_8S :: int where "CV_8S = 1"
definition CV_16U :: int where "CV_16U = 2"
definition CV_16S :: int where "CV_16S = 3"
definition CV_32S :: int where "CV_32S = 4"
definition CV_32F :: int where "CV_32F = 5"
definition CV_64F :: int where "CV_64F = 6"

definition CV_MAKETYPE :: "int \<Rightarrow> int \<Rightarrow> int" where
  "CV_MAKETYPE d cn = (d AND 7) + push_bit 3 (cn - 1)"

definition CV_8UC1 :: int where "CV_8UC1 = CV_MAKETYPE CV_8U 1"

definition CV_MAT_TYPE :: "int \<Rightarrow> int" where
  "CV_MAT_TYPE flags = flags AND 4095"

definition CV_MAT_DEPTH :: "int \<Rightarrow> int" where
  "CV_MAT_DEPTH flags = flags AND 7"

definition CV_MAT_CN :: "int \<Rightarrow> int" where
  "CV_MAT_CN flags = (drop_bit 3 flags AND 511) + 1"

text \<open>
  One component of one element as it lies in the buffer. The integer kinds are machine
  words; \<open>Opaque\<close> is a component of a depth outside the seven kinds, \<open>Uninit\<close> is
  memory that was allocated and never written.
\<close>

datatype cell =
    U8 "8 word"
  | S8 "8 word"
  | U16 "16 word"
  | S16 "16 word"
  | S32 "32 word"
  | F32 real
  | F64 real
  | Opaque
  | Uninit

text \<open>
  The header of a two-dimensional \<open>cv::Mat\<close> (every matrix the sources create is one):
  \<open>data\<close> is the position of the first element in the buffer, \<open>None\<close> for the null
  pointer, and \<open>step1\<close> the row pitch, both counted in components rather than bytes.
  Each header carries its own copy of the buffer: the sharing of one buffer between a view
  and its parent is not represented.
\<close>

record Mat =
  rows :: int
  cols :: int
  mtype :: int
  step1 :: nat
  data :: "nat option"
  buf :: "cell list"

definition depth :: "Mat \<Rightarrow> int" where
  "depth m = CV_MAT_DEPTH (mtype m)"

definition channels :: "Mat \<Rightarrow> int" where
  "channels m = CV_MAT_CN (mtype m)"

definition Mat_empty :: "Mat \<Rightarrow> bool" where
  \<comment> \<open>\<open>cv::Mat::empty\<close>: no data, or no elements\<close>
  "Mat_empty m = (data m = None \<or> rows m * cols m = 0)"

definition Mat_default :: Mat where
  \<comment> \<open>\<open>cv::Mat()\<close>\<close>
  "Mat_default = \<lparr>rows = 0, cols = 0, mtype = 0, step1 = 0, data = None, buf = []\<rparr>"

subsection \<open>The C++ heap of matrix headers\<close>

text \<open>
  \<open>new cv::Mat\<close> appends a slot and returns its index as the pointer; \<open>delete\<close> clears
  the slot. A Ruby matrix object \<open>MatObj p\<close> wraps the pointer \<open>p\<close>.
\<close>

type_synonym heap = "Mat option list"

type_synonym 'a result = "(rb_error + 'a) \<times> heap"

definition new_Mat :: "heap \<Rightarrow> Mat \<Rightarrow> nat \<times> heap" where
  "new_Mat h m = (length h, h @ [Some m])"

definition delete_Mat :: "heap \<Rightarrow> nat \<Rightarrow> heap" where
  "delete_Mat h p = h[p := None]"

definition mat_at :: "heap \<Rightarrow> nat \<Rightarrow> Mat option" where
  "mat_at h p = (if p < length h then h ! p else None)"

definition allocated :: "heap \<Rightarrow> nat list" where
  "allocated h = filter (\<lambda>p. h ! p \<noteq> None) [0..<length h]"

fun obj2mat :: "heap \<Rightarrow> rb_value \<Rightarrow> rb_error + nat \<times> Mat" where
  \<comment> \<open>the wrapped pointer, together with the header it points to\<close>
  "obj2mat h (MatObj p) = (case mat_at h p of None \<Rightarrow> Inl Undefined | Some m \<Rightarrow> Inr (p, m))"
| "obj2mat h _ = Inl TypeError"

text \<open>
  Modelled from the spec: \<open>Scalar::obj2scalar\<close> (\<open>scalar.cpp\<close>) and
  \<open>Rect::obj2rect\<close> (\<open>rect.cpp\<close>) are not among the sources. As every operand
  conversion of the specification, they hand out the wrapped value of an object of their
  class and reject any other object with a typed error.
\<close>

fun obj2scalar :: "rb_value \<Rightarrow> rb_error + Scalar" where
  "obj2scalar (ScalarObj s) = Inr s"
| "obj2scalar _ = Inl TypeError"

fun obj2rect :: "rb_value \<Rightarrow> rb_error + (int \<times> int \<times> int \<times> int)" where
  "obj2rect (RectObj x y w ht) = Inr (x, y, w, ht)"
| "obj2rect _ = Inl TypeError"

fun is_Mat :: "rb_value \<Rightarrow> bool" where
  "is_Mat (MatObj _) = True"
| "is_Mat _ = False"

fun is_Scalar :: "rb_value \<Rightarrow> bool" where
  "is_Scalar (ScalarObj _) = True"
| "is_Scalar _ = False"

section \<open>Construction\<close>

text \<open>
  Model of the library constructors \<open>cv::Mat(rows, cols, type)\<close> and
  \<open>cv::Mat(m, roi)\<close>. The first rejects a negative size, allocates nothing when the
  matrix has no element, and otherwise allocates uninitialised storage; \<open>limit\<close> is the
  number of components the allocator can still supply. The second checks that the region
  lies inside \<open>m\<close> and releases the header when the region has no element.
\<close>

definition cv_Mat_new :: "nat \<Rightarrow> int \<Rightarrow> int \<Rightarrow> int \<Rightarrow> cv_exception + Mat" where
  "cv_Mat_new limit r c t =
     (if r < 0 \<or> c < 0 then Inl (CvException ''size'')
      else let ty = CV_MAT_TYPE t; cn = nat (CV_MAT_CN ty); n = nat r * nat c * cn in
        if n = 0 then
          Inr \<lparr>rows = r, cols = c, mtype = ty, step1 = nat c * cn, data = None, buf = []\<rparr>
        else if limit < n then Inl (CvException ''memory'')
        else
          Inr \<lparr>rows = r, cols = c, mtype = ty, step1 = nat c * cn, data = Some 0,
               buf = replicate n Uninit\<rparr>)"

definition cv_Mat_roi :: "Mat \<Rightarrow> int \<times> int \<times> int \<times> int \<Rightarrow> cv_exception + Mat" where
  "cv_Mat_roi m roi =
     (case roi of (x, y, w, ht) \<Rightarrow>
        if 0 \<le> x \<and> 0 \<le> w \<and> x + w \<le> cols m \<and> 0 \<le> y \<and> 0 \<le> ht \<and> y + ht \<le> rows m then
          if ht \<le> 0 \<or> w \<le> 0 then Inr (m\<lparr>rows := 0, cols := 0, data := None, buf := []\<rparr>)
          else
            Inr (m\<lparr>rows := ht, cols := w,
                   data := map_option (\<lambda>d. d + nat y * step1 m + nat x * nat (channels m))
                             (data m)\<rparr>)
        else Inl (CvException ''roi''))"

definition initialize_finish :: "heap \<Rightarrow> Mat \<Rightarrow> rb_value result" where
  \<comment> \<open>the \<open>empty()\<close> guard of \<open>rb_initialize\<close>, run on the freshly allocated header\<close>
  "initialize_finish h m =
     (case new_Mat h m of (p, h1) \<Rightarrow>
        if Mat_empty m then (Inl (NoMemError ''Failed to create matrix''), delete_Mat h1 p)
        else (Inr (MatObj p), h1))"

fun rb_initialize_args :: "nat \<Rightarrow> heap \<Rightarrow> rb_value \<Rightarrow> rb_value \<Rightarrow> rb_value \<Rightarrow> rb_value result" where
  "rb_initialize_args limit h v1 v2 type =
     (if is_Numeric v1 then
        (case NUM2INT v1 of Inl e \<Rightarrow> (Inl e, h) | Inr r \<Rightarrow>
         case NUM2INT v2 of Inl e \<Rightarrow> (Inl e, h) | Inr c \<Rightarrow>
         case (if NIL_P type then Inr CV_8UC1 else NUM2INT type) of Inl e \<Rightarrow> (Inl e, h) | Inr t \<Rightarrow>
         case cv_Mat_new limit r c t of
           Inl e \<Rightarrow> (Inl (CvError e), h)
         | Inr m \<Rightarrow> initialize_finish h m)
      else
        (case obj2mat h v1 of Inl e \<Rightarrow> (Inl e, h) | Inr (q, parent) \<Rightarrow>
         case obj2rect v2 of Inl e \<Rightarrow> (Inl e, h) | Inr roi \<Rightarrow>
         case cv_Mat_roi parent roi of
           Inl e \<Rightarrow> (Inl (CvError e), h)
         | Inr m \<Rightarrow> initialize_finish h m))"

fun rb_initialize :: "nat \<Rightarrow> heap \<Rightarrow> rb_value list \<Rightarrow> rb_value result" where
  \<comment> \<open>\<open>rb_scan_args(argc, argv, "21", ...)\<close>: two required arguments, one optional\<close>
  "rb_initialize limit h [v1, v2] = rb_initialize_args limit h v1 v2 Qnil"
| "rb_initialize limit h [v1, v2, type] = rb_initialize_args limit h v1 v2 type"
| "rb_initialize limit h _ = (Inl ArgumentError, h)"

definition isEmpty :: "heap \<Rightarrow> rb_value \<Rightarrow> bool option" where
  \<comment> \<open>\<open>empty()\<close> of the header a matrix object wraps\<close>
  "isEmpty h v = (case obj2mat h v of Inl _ \<Rightarrow> None | Inr (p, m) \<Rightarrow> Some (Mat_empty m))"

text \<open>
  Model of the library factory \<open>cv::Mat::zeros\<close>: as \<open>cv::Mat(rows, cols, type)\<close>, with
  every component the zero of the depth.
\<close>

definition zero_cell :: "int \<Rightarrow> cell" where
  "zero_cell d =
     (if d = CV_8U then U8 0 else if d = CV_8S then S8 0
      else if d = CV_16U then U16 0 else if d = CV_16S then S16 0
      else if d = CV_32S then S32 0 else if d = CV_32F then F32 0
      else if d = CV_64F then F64 0 else Opaque)"

definition cv_Mat_zeros :: "nat \<Rightarrow> int \<Rightarrow> int \<Rightarrow> int \<Rightarrow> cv_exception + Mat" where
  "cv_Mat_zeros limit r c t =
     (case cv_Mat_new limit r c t of
        Inl e \<Rightarrow> Inl e
      | Inr m \<Rightarrow> Inr (m\<lparr>buf := replicate (length (buf m)) (zero_cell (depth m))\<rparr>))"

text \<open>
  Modelled from the spec: \<open>Error::raise\<close> (\<open>error.cpp\<close>) is not among the sources.
  An exception of the library, caught at the call, is raised again as a Ruby error that
  keeps the library's message.
\<close>

definition Error_raise :: "cv_exception + 'a \<Rightarrow> rb_error + 'a" where
  \<comment> \<open>\<open>catch (cv::Exception& e) { ...; Error::raise(e); }\<close>\<close>
  "Error_raise r = (case r of Inl e \<Rightarrow> Inl (CvError e) | Inr x \<Rightarrow> Inr x)"

definition rb_zeros :: "nat \<Rightarrow> heap \<Rightarrow> rb_value \<Rightarrow> rb_value \<Rightarrow> rb_value \<Rightarrow> rb_value result" where
  "rb_zeros limit h rws cls type =
     (case NUM2INT rws of Inl e \<Rightarrow> (Inl e, h) | Inr r \<Rightarrow>
      case NUM2INT cls of Inl e \<Rightarrow> (Inl e, h) | Inr c \<Rightarrow>
      case NUM2INT type of Inl e \<Rightarrow> (Inl e, h) | Inr t \<Rightarrow>
      case Error_raise (cv_Mat_zeros limit r c t) of
        Inl e \<Rightarrow> (Inl e, h)
      | Inr tmp \<Rightarrow> (case new_Mat h tmp of (p, h1) \<Rightarrow> (Inr (MatObj p), h1)))"

section \<open>Element access\<close>

text \<open>
  The template argument of \<open>at< cv::Scalar_<T> >\<close> and of \<open>ptr<T>\<close>, and the value a
  component has when it is read as a \<open>T\<close> and converted to \<open>double\<close>. A component of
  another kind, or one never written, has no defined value.
\<close>

datatype ctype = T_uchar | T_char | T_ushort | T_short | T_float | T_int | T_double

fun read_cell :: "ctype \<Rightarrow> cell \<Rightarrow> real option" where
  "read_cell T_uchar (U8 w) = Some (real_of_int (uint w))"
| "read_cell T_char (S8 w) = Some (real_of_int (sint w))"
| "read_cell T_ushort (U16 w) = Some (real_of_int (uint w))"
| "read_cell T_short (S16 w) = Some (real_of_int (sint w))"
| "read_cell T_int (S32 w) = Some (real_of_int (sint w))"
| "read_cell T_float (F32 x) = Some x"
| "read_cell T_double (F64 x) = Some x"
| "read_cell _ _ = None"

text \<open>
  The C cast \<open>(T)d\<close> of a \<open>double\<close>. To \<open>int\<close> it drops the fraction, and it is
  undefined when the integer part does not fit \<open>int\<close>. To a narrower integer type the
  compiled code converts to \<open>int\<close> and keeps the low bits: the two's complement
  wrap-around that the specification prescribes (ISO C++ itself leaves a value that does
  not fit the type undefined). Once the integer part leaves the range of \<open>int\<close> nothing
  dependable is stored, and the model has no value for the cast. \<open>to_float\<close> is the
  rounding of a \<open>double\<close> to single precision, a parameter of the model.
\<close>

definition double_to_int :: "real \<Rightarrow> int option" where
  "double_to_int x =
     (if INT_MIN \<le> trunc0 x \<and> trunc0 x \<le> INT_MAX then Some (trunc0 x) else None)"

fun cast_to :: "(real \<Rightarrow> real) \<Rightarrow> ctype \<Rightarrow> real \<Rightarrow> cell option" where
  "cast_to to_float T_uchar x = map_option (\<lambda>i. U8 (word_of_int i)) (double_to_int x)"
| "cast_to to_float T_char x = map_option (\<lambda>i. S8 (word_of_int i)) (double_to_int x)"
| "cast_to to_float T_ushort x = map_option (\<lambda>i. U16 (word_of_int i)) (double_to_int x)"
| "cast_to to_float T_short x = map_option (\<lambda>i. S16 (word_of_int i)) (double_to_int x)"
| "cast_to to_float T_int x = map_option (\<lambda>i. S32 (word_of_int i)) (double_to_int x)"
| "cast_to to_float T_float x = Some (F32 (to_float x))"
| "cast_to to_float T_double x = Some (F64 x)"

definition CV_MAX_DIM :: nat where "CV_MAX_DIM = 32"

fun index_loop :: "rb_value list \<Rightarrow> rb_error + int list" where
  \<comment> \<open>\<open>index[i] = NUM2INT(rb_ary_entry(args, i))\<close>, in order\<close>
  "index_loop [] = Inr []"
| "index_loop (a # as) =
     (case NUM2INT a of Inl e \<Rightarrow> Inl e | Inr i \<Rightarrow>
      case index_loop as of Inl e \<Rightarrow> Inl e | Inr is \<Rightarrow> Inr (i # is))"

definition elem_offset :: "Mat \<Rightarrow> int \<Rightarrow> int \<Rightarrow> int option" where
  \<comment> \<open>position of component \<open>x\<close> of row \<open>y\<close>: \<open>data + y * step\<close>, then \<open>[x]\<close>\<close>
  "elem_offset m y x = (case data m of None \<Rightarrow> None | Some d \<Rightarrow> Some (int d + y * int (step1 m) + x))"

text \<open>
  \<open>at< cv::Scalar_<T> >(index)\<close> of a release build checks neither the index nor the
  element size: it reads four values of type \<open>T\<close> at the element's address, whatever
  the number of channels. The first \<open>channels\<close> of them are the element's own
  components: they have to lie inside the buffer and hold values of type \<open>T\<close>. The
  others lie behind the element. Where such a position is inside the buffer and holds a
  value of type \<open>T\<close>, the read finds that value, a component of a neighbouring element;
  anywhere else the call still returns, and what it finds there is indeterminate: the
  parameter \<open>junk\<close> gives it, by position.
\<close>

definition own :: "ctype \<Rightarrow> cell list \<Rightarrow> nat \<Rightarrow> real option" where
  "own T b k = (if k < length b then read_cell T (b ! k) else None)"

definition peek :: "(nat \<Rightarrow> real) \<Rightarrow> ctype \<Rightarrow> cell list \<Rightarrow> nat \<Rightarrow> real" where
  "peek junk T b k =
     (if k < length b then (case read_cell T (b ! k) of Some x \<Rightarrow> x | None \<Rightarrow> junk k)
      else junk k)"

definition scalar_val :: "(nat \<Rightarrow> real) \<Rightarrow> ctype \<Rightarrow> Mat \<Rightarrow> nat \<Rightarrow> nat \<Rightarrow> real option" where
  \<comment> \<open>value \<open>k\<close> of the four read at position \<open>off\<close>\<close>
  "scalar_val junk T m off k =
     (if k < nat (channels m) then own T (buf m) (off + k)
      else Some (peek junk T (buf m) (off + k)))"

definition at_Scalar :: "(nat \<Rightarrow> real) \<Rightarrow> ctype \<Rightarrow> Mat \<Rightarrow> int list \<Rightarrow> rb_error + Scalar" where
  "at_Scalar junk T m index =
     (case index of
        i0 # i1 # _ \<Rightarrow>
          (case elem_offset m i0 (i1 * channels m) of
             None \<Rightarrow> Inl Undefined
           | Some off \<Rightarrow>
               if off < 0 then Inl Undefined
               else
                 (case (scalar_val junk T m (nat off) 0, scalar_val junk T m (nat off) 1,
                        scalar_val junk T m (nat off) 2, scalar_val junk T m (nat off) 3) of
                    (Some a, Some b, Some c, Some d) \<Rightarrow> Inr (Scalar a b c d)
                  | _ \<Rightarrow> Inl Undefined))
      | _ \<Rightarrow> Inl Undefined)"

definition aref_switch :: "(nat \<Rightarrow> real) \<Rightarrow> Mat \<Rightarrow> int list \<Rightarrow> rb_error + Scalar" where
  \<comment> \<open>\<open>switch (selfptr->depth())\<close> of \<open>rb_aref\<close>\<close>
  "aref_switch junk m index =
     (let d = depth m in
      if d = CV_8U then at_Scalar junk T_uchar m index
      else if d = CV_8S then at_Scalar junk T_char m index
      else if d = CV_16U then at_Scalar junk T_ushort m index
      else if d = CV_16S then at_Scalar junk T_short m index
      else if d = CV_32F then at_Scalar junk T_float m index
      else if d = CV_32S then at_Scalar junk T_int m index
      else if d = CV_64F then at_Scalar junk T_double m index
      else Inl (StandardError ''Invalid depth''))"

definition rb_aref :: "(nat \<Rightarrow> real) \<Rightarrow> heap \<Rightarrow> rb_value \<Rightarrow> rb_value list \<Rightarrow> rb_value result" where
  "rb_aref junk h self args =
     (case index_loop (take (Suc CV_MAX_DIM) args) of Inl e \<Rightarrow> (Inl e, h) | Inr index \<Rightarrow>
      if CV_MAX_DIM < length args then (Inl Undefined, h)
      else
        case obj2mat h self of Inl e \<Rightarrow> (Inl e, h) | Inr (p, m) \<Rightarrow>
        case aref_switch junk m index of
          Inl e \<Rightarrow> (Inl e, h)
        | Inr scalar \<Rightarrow> (Inr (ScalarObj scalar), h))"

primrec aset_loop :: "(real \<Rightarrow> cell option) \<Rightarrow> Scalar \<Rightarrow> nat \<Rightarrow> nat \<Rightarrow> cell list \<Rightarrow> cell list option" where
  \<comment> \<open>\<open>for (int i = 0; i < n; i++) p[i] = (T)((*scalar)[i]);\<close> with \<open>p\<close> at position \<open>off\<close>\<close>
  "aset_loop cast scalar off 0 b = Some b"
| "aset_loop cast scalar off (Suc n) b =
     (case aset_loop cast scalar off n b of
        None \<Rightarrow> None
      | Some b1 \<Rightarrow>
          (case sc_nth scalar n of
             None \<Rightarrow> None
           | Some x \<Rightarrow>
               (case cast x of
                  None \<Rightarrow> None
                | Some c \<Rightarrow> if off + n < length b1 then Some (b1[off + n := c]) else None)))"

definition aset_at :: "(real \<Rightarrow> cell option) \<Rightarrow> Mat \<Rightarrow> int \<Rightarrow> int \<Rightarrow> Scalar \<Rightarrow> rb_error + Mat" where
  "aset_at cast m y x scalar =
     (case elem_offset m y x of
        None \<Rightarrow> Inl Undefined
      | Some off \<Rightarrow>
          if off < 0 then Inl Undefined
          else
            (case aset_loop cast scalar (nat off) (nat (channels m)) (buf m) of
               None \<Rightarrow> Inl Undefined
             | Some b \<Rightarrow> Inr (m\<lparr>buf := b\<rparr>)))"

definition aset_switch :: "(real \<Rightarrow> real) \<Rightarrow> Mat \<Rightarrow> int \<Rightarrow> int \<Rightarrow> Scalar \<Rightarrow> rb_error + Mat" where
  \<comment> \<open>\<open>switch (selfptr->depth())\<close> of \<open>rb_aset\<close>\<close>
  "aset_switch to_float m y x scalar =
     (let d = depth m in
      if d = CV_8U then aset_at (cast_to to_float T_uchar) m y x scalar
      else if d = CV_8S then aset_at (cast_to to_float T_char) m y x scalar
      else if d = CV_16U then aset_at (cast_to to_float T_ushort) m y x scalar
      else if d = CV_16S then aset_at (cast_to to_float T_short) m y x scalar
      else if d = CV_32F then aset_at (cast_to to_float T_float) m y x scalar
      else if d = CV_32S then aset_at (cast_to to_float T_int) m y x scalar
      else if d = CV_64F then aset_at (cast_to to_float T_double) m y x scalar
      else Inl (StandardError ''Invalid depth''))"

definition rb_aset ::
  "(real \<Rightarrow> real) \<Rightarrow> heap \<Rightarrow> rb_value \<Rightarrow> rb_value \<Rightarrow> rb_value \<Rightarrow> rb_value \<Rightarrow> rb_value result" where
  "rb_aset to_float h self row col val =
     (case obj2scalar val of Inl e \<Rightarrow> (Inl e, h) | Inr scalar \<Rightarrow>
      case obj2mat h self of Inl e \<Rightarrow> (Inl e, h) | Inr (p, m) \<Rightarrow>
      case NUM2INT row of Inl e \<Rightarrow> (Inl e, h) | Inr y \<Rightarrow>
      case NUM2INT col of Inl e \<Rightarrow> (Inl e, h) | Inr c \<Rightarrow>
      let x = c * channels m in
      if x < INT_MIN \<or> INT_MAX < x then (Inl Undefined, h)
      else
        case aset_switch to_float m y x scalar of
          Inl e \<Rightarrow> (Inl e, h)
        | Inr m1 \<Rightarrow> (Inr self, h[p := Some m1]))"

section \<open>Arithmetic operators\<close>

text \<open>
  The numeric kernels belong to the library. A call of one is recorded as a value: which
  operation, on which operands; the kernel itself is a parameter \<open>kern\<close> of every function
  that calls it, and answers with the computed matrix or throws a \<open>cv::Exception\<close>.
  \<open>MatMat\<close> is \<open>a op b\<close> on two matrices, \<open>MatScalar\<close> on a matrix and a
  \<open>cv::Scalar\<close>, \<open>MatDouble\<close> on a matrix and a \<open>double\<close>.
\<close>

datatype binop = Add | Sub | Mul | Div | AbsDiff

datatype kernel_call =
    MatMat binop Mat Mat
  | MatScalar binop Mat Scalar
  | MatDouble binop Mat real

type_synonym kernel = "kernel_call \<Rightarrow> cv_exception + Mat"

definition wrap_new :: "heap \<Rightarrow> rb_error + Mat \<Rightarrow> rb_value result" where
  \<comment> \<open>\<open>retptr = new cv::Mat(tmp); ... return mat2obj(retptr, CLASS_OF(self));\<close>, or the
      error raised before \<open>retptr\<close> was assigned\<close>
  "wrap_new h r =
     (case r of
        Inl e \<Rightarrow> (Inl e, h)
      | Inr tmp \<Rightarrow> (case new_Mat h tmp of (p, h1) \<Rightarrow> (Inr (MatObj p), h1)))"

definition rb_add :: "kernel \<Rightarrow> heap \<Rightarrow> rb_value \<Rightarrow> rb_value \<Rightarrow> rb_value result" where
  "rb_add kern h self other =
     (case obj2mat h self of Inl e \<Rightarrow> (Inl e, h) | Inr (p, m) \<Rightarrow>
      wrap_new h
        (if is_Mat other then
           (case obj2mat h other of Inl e \<Rightarrow> Inl e
            | Inr (q, mat) \<Rightarrow> Error_raise (kern (MatMat Add m mat)))
         else if is_Scalar other then
           (case obj2scalar other of Inl e \<Rightarrow> Inl e
            | Inr s \<Rightarrow> Error_raise (kern (MatScalar Add m s)))
         else
           (case NUM2DBL other of Inl e \<Rightarrow> Inl e
            | Inr scale \<Rightarrow> Error_raise (kern (MatDouble Add m scale)))))"

definition rb_sub :: "kernel \<Rightarrow> heap \<Rightarrow> rb_value \<Rightarrow> rb_value \<Rightarrow> rb_value result" where
  "rb_sub kern h self other =
     (case obj2mat h self of Inl e \<Rightarrow> (Inl e, h) | Inr (p, m) \<Rightarrow>
      wrap_new h
        (if is_Mat other then
           (case obj2mat h other of Inl e \<Rightarrow> Inl e
            | Inr (q, mat) \<Rightarrow> Error_raise (kern (MatMat Sub m mat)))
         else if is_Scalar other then
           (case obj2scalar other of Inl e \<Rightarrow> Inl e
            | Inr s \<Rightarrow> Error_raise (kern (MatScalar Sub m s)))
         else
           (case NUM2DBL other of Inl e \<Rightarrow> Inl e
            | Inr scale \<Rightarrow> Error_raise (kern (MatDouble Sub m scale)))))"

definition rb_mul :: "kernel \<Rightarrow> heap \<Rightarrow> rb_value \<Rightarrow> rb_value \<Rightarrow> rb_value result" where
  "rb_mul kern h self other =
     (case obj2mat h self of Inl e \<Rightarrow> (Inl e, h) | Inr (p, m) \<Rightarrow>
      wrap_new h
        (if is_Mat other then
           (case obj2mat h other of Inl e \<Rightarrow> Inl e
            | Inr (q, mat) \<Rightarrow> Error_raise (kern (MatMat Mul m mat)))
         else
           (case NUM2DBL other of Inl e \<Rightarrow> Inl e
            | Inr scale \<Rightarrow> Error_raise (kern (MatDouble Mul m scale)))))"

definition rb_div :: "kernel \<Rightarrow> heap \<Rightarrow> rb_value \<Rightarrow> rb_value \<Rightarrow> rb_value result" where
  "rb_div kern h self other =
     (case obj2mat h self of Inl e \<Rightarrow> (Inl e, h) | Inr (p, m) \<Rightarrow>
      wrap_new h
        (if is_Mat other then
           (case obj2mat h other of Inl e \<Rightarrow> Inl e
            | Inr (q, mat) \<Rightarrow> Error_raise (kern (MatMat Div m mat)))
         else
           (case NUM2DBL other of Inl e \<Rightarrow> Inl e
            | Inr scale \<Rightarrow> Error_raise (kern (MatDouble Div m scale)))))"

definition rb_absdiff :: "kernel \<Rightarrow> heap \<Rightarrow> rb_value \<Rightarrow> rb_value \<Rightarrow> rb_value result" where
  \<comment> \<open>the output header is allocated first; every failing path deletes it\<close>
  "rb_absdiff kern h self other =
     (case obj2mat h self of Inl e \<Rightarrow> (Inl e, h) | Inr (p, m) \<Rightarrow>
      case new_Mat h Mat_default of (retptr, h1) \<Rightarrow>
        if is_Mat other then
          (case obj2mat h other of Inl e \<Rightarrow> (Inl e, h1)
           | Inr (q, tmp) \<Rightarrow>
               (case kern (MatMat AbsDiff m tmp) of
                  Inl e \<Rightarrow> (Inl (CvError e), delete_Mat h1 retptr)
                | Inr r \<Rightarrow> (Inr (MatObj retptr), h1[retptr := Some r])))
        else if is_Scalar other then
          (case obj2scalar other of Inl e \<Rightarrow> (Inl e, h1)
           | Inr tmp \<Rightarrow>
               (case kern (MatScalar AbsDiff m tmp) of
                  Inl e \<Rightarrow> (Inl (CvError e), delete_Mat h1 retptr)
                | Inr r \<Rightarrow> (Inr (MatObj retptr), h1[retptr := Some r])))
        else (Inl TypeError, delete_Mat h1 retptr))"

text \<open>
  The scalar sum of the library on 8-bit unsigned data, as its documentation states it:
  every component becomes \<open>saturate_cast<uchar>(src + s[c])\<close>, with \<open>c\<close> the channel of
  the component. \<open>cvRound\<close> rounds to the nearest integer, a tie to the even one. The
  library has no sum of a matrix and a \<open>double\<close>: in \<open>m + d\<close> the number converts to
  the scalar \<open>(d, 0, 0, 0)\<close>.
\<close>

definition cvRound :: "real \<Rightarrow> int" where
  "cvRound x =
     (let f = \<lfloor>x\<rfloor> in
      if x - real_of_int f < 1 / 2 then f
      else if 1 / 2 < x - real_of_int f then f + 1
      else if even f then f else f + 1)"

definition saturate_uchar :: "real \<Rightarrow> 8 word" where
  "saturate_uchar x = word_of_int (max 0 (min 255 (cvRound x)))"

fun add_cell_u8 :: "Scalar \<Rightarrow> nat \<Rightarrow> nat \<Rightarrow> cell \<Rightarrow> cell" where
  "add_cell_u8 s cn k (U8 w) =
     (case sc_nth s (k mod cn) of
        Some x \<Rightarrow> U8 (saturate_uchar (real_of_int (uint w) + x))
      | None \<Rightarrow> U8 w)"
| "add_cell_u8 s cn k c = c"

definition cv_add_u8 :: "Mat \<Rightarrow> Scalar \<Rightarrow> Mat" where
  \<comment> \<open>for a continuous header (\<open>data\<close> at the start of the buffer, no gap between rows)\<close>
  "cv_add_u8 m s =
     m\<lparr>buf := map (\<lambda>k. add_cell_u8 s (nat (channels m)) k (buf m ! k)) [0..<length (buf m)]\<rparr>"

section \<open>Threshold, split, decoding\<close>

definition THRESH_OTSU :: int where "THRESH_OTSU = 8"
definition THRESH_TRIANGLE :: int where "THRESH_TRIANGLE = 16"

definition rb_threshold ::
  "(Mat \<Rightarrow> real \<Rightarrow> real \<Rightarrow> int \<Rightarrow> cv_exception + real \<times> Mat) \<Rightarrow>
   heap \<Rightarrow> rb_value \<Rightarrow> rb_value \<Rightarrow> rb_value \<Rightarrow> rb_value \<Rightarrow> rb_value result" where
  \<comment> \<open>\<open>cv_threshold\<close> is the library kernel: it returns the computed threshold and the
      output matrix, or throws\<close>
  "rb_threshold cv_threshold h self threshold max_value threshold_type =
     (case obj2mat h self of Inl e \<Rightarrow> (Inl e, h) | Inr (p, m) \<Rightarrow>
      case NUM2INT threshold_type of Inl e \<Rightarrow> (Inl e, h) | Inr threshold_type_value \<Rightarrow>
      case new_Mat h Mat_default of (dstptr, h1) \<Rightarrow>
      case NUM2DBL threshold of Inl e \<Rightarrow> (Inl e, h1) | Inr th \<Rightarrow>
      case NUM2DBL max_value of Inl e \<Rightarrow> (Inl e, h1) | Inr mv \<Rightarrow>
      case cv_threshold m th mv threshold_type_value of
        Inl e \<Rightarrow> (Inl (CvError e), delete_Mat h1 dstptr)
      | Inr (optimal_threshold, d) \<Rightarrow>
          let h2 = h1[dstptr := Some d]; dst = MatObj dstptr in
          if threshold_type_value AND THRESH_OTSU \<noteq> 0
             \<or> threshold_type_value AND THRESH_TRIANGLE \<noteq> 0
          then (Inr (RArray [dst, RFloat optimal_threshold]), h2)
          else (Inr dst, h2))"

function split_loop ::
  "Mat list \<Rightarrow> nat \<Rightarrow> nat \<Rightarrow> heap \<Rightarrow> rb_value list \<Rightarrow> (rb_value list) result" where
  \<comment> \<open>\<open>for (int i = 0; i < size; i++) rb_ary_store(result, i, mat2obj(new cv::Mat(splitted[i])))\<close>;
      \<open>splitted[i]\<close> beyond the vector's end is undefined\<close>
  "split_loop splitted i n h result =
     (if i < n then
        (if i < length splitted then
           (case new_Mat h (splitted ! i) of (tmp, h1) \<Rightarrow>
              split_loop splitted (Suc i) n h1 (result @ [MatObj tmp]))
         else (Inl Undefined, h))
      else (Inr result, h))"
  by pat_completeness auto
termination
  by (relation "measure (\<lambda>(splitted, i, n, h, result). n - i)") (auto simp: new_Mat_def)

definition rb_split :: "(Mat \<Rightarrow> cv_exception + Mat list) \<Rightarrow> heap \<Rightarrow> rb_value \<Rightarrow> rb_value result" where
  \<comment> \<open>\<open>cv_split\<close> is the library kernel \<open>cv::split\<close>\<close>
  "rb_split cv_split h self =
     (case obj2mat h self of Inl e \<Rightarrow> (Inl e, h) | Inr (p, m) \<Rightarrow>
      case cv_split m of
        Inl e \<Rightarrow> (Inl (CvError e), h)
      | Inr splitted \<Rightarrow>
          (case split_loop splitted 0 (nat (channels m)) h [] of
             (Inl e, h1) \<Rightarrow> (Inl e, h1)
           | (Inr result, h1) \<Rightarrow> (Inr (RArray result), h1)))"

fun bytes_loop :: "rb_value list \<Rightarrow> rb_error + 8 word list" where
  \<comment> \<open>\<open>data[i] = (uchar)(NUM2INT(RARRAY_AREF(buf, i)) & 0xff)\<close>\<close>
  "bytes_loop [] = Inr []"
| "bytes_loop (a # as) =
     (case NUM2INT a of Inl e \<Rightarrow> Inl e | Inr i \<Rightarrow>
      case bytes_loop as of Inl e \<Rightarrow> Inl e | Inr bs \<Rightarrow> Inr (word_of_int (i AND 255) # bs))"

fun rb_imdecode_internal ::
  "(8 word list \<Rightarrow> int \<Rightarrow> Mat \<Rightarrow> cv_exception + Mat) \<Rightarrow> heap \<Rightarrow> rb_value \<Rightarrow> rb_value \<Rightarrow> rb_value result" where
  \<comment> \<open>\<open>cv_imdecode data flags dst\<close> is the library codec: the contents of \<open>*dst\<close> after the
      call, or the exception thrown\<close>
  "rb_imdecode_internal cv_imdecode h (RArray elems) flags =
     (case bytes_loop elems of Inl e \<Rightarrow> (Inl e, h) | Inr bytes \<Rightarrow>
      case new_Mat h Mat_default of (dstptr, h1) \<Rightarrow>
      case NUM2INT flags of Inl e \<Rightarrow> (Inl e, h1) | Inr fl \<Rightarrow>
      case cv_imdecode bytes fl Mat_default of
        Inl e \<Rightarrow> (Inl (CvError e), delete_Mat h1 dstptr)
      | Inr d \<Rightarrow> (Inr (MatObj dstptr), h1[dstptr := Some d]))"
| "rb_imdecode_internal cv_imdecode h _ flags = (Inl TypeError, h)"

fun rb_imread_internal ::
  "(string \<Rightarrow> int \<Rightarrow> cv_exception + Mat) \<Rightarrow> heap \<Rightarrow> rb_value \<Rightarrow> rb_value \<Rightarrow> rb_value result" where
  "rb_imread_internal cv_imread h (RString filename) flags =
     (case NUM2INT flags of Inl e \<Rightarrow> (Inl e, h) | Inr fl \<Rightarrow>
      case cv_imread filename fl of
        Inl e \<Rightarrow> (Inl (CvError e), h)
      | Inr tmp \<Rightarrow>
          if Mat_empty tmp then (Inl (StandardError ''Failed to load image''), h)
          else (case new_Mat h tmp of (dataptr, h1) \<Rightarrow> (Inr (MatObj dataptr), h1)))"
| "rb_imread_internal cv_imread h _ flags = (Inl TypeError, h)"

section \<open>The depth table of the specification\<close>

text \<open>
  The seven supported kinds, each with the C type the library stores for it. This table
  follows the specification's list, not the code; the switches of \<open>rb_aref\<close> and
  \<open>rb_aset\<close> are compared with it below.
\<close>

definition spec_depth_ctype :: "int \<Rightarrow> ctype option" where
  "spec_depth_ctype d =
     (if d = CV_8U then Some T_uchar else if d = CV_8S then Some T_char
      else if d = CV_16U then Some T_ushort else if d = CV_16S then Some T_short
      else if d = CV_32S then Some T_int else if d = CV_32F then Some T_float
      else if d = CV_64F then Some T_double else None)"



section \<open>Properties of construction\<close>

lemma CV_8UC1_val: "CV_8UC1 = 0"
  by (simp add: CV_8UC1_def CV_MAKETYPE_def CV_8U_def)

lemma cv_Mat_new_zero:
  "0 \<le> r \<Longrightarrow> 0 \<le> c \<Longrightarrow> r = 0 \<or> c = 0 \<Longrightarrow>
   \<exists>m. cv_Mat_new limit r c t = Inr m \<and> Mat_empty m"
  by (auto simp: cv_Mat_new_def Let_def Mat_empty_def)

lemma CV_MAT_CN_pos: "0 < CV_MAT_CN t"
proof -
  have "0 \<le> drop_bit 3 t AND 511" by simp
  then show ?thesis unfolding CV_MAT_CN_def by linarith
qed

lemma cv_Mat_new_pos:
  assumes "0 < r" "0 < c" "nat r * nat c * nat (CV_MAT_CN (CV_MAT_TYPE t)) \<le> limit"
  shows "\<exists>m. cv_Mat_new limit r c t = Inr m \<and> \<not> Mat_empty m \<and> rows m = r \<and> cols m = c
             \<and> mtype m = CV_MAT_TYPE t"
proof -
  have "0 < nat (CV_MAT_CN (CV_MAT_TYPE t))" using CV_MAT_CN_pos by simp
  with assms have "nat r * nat c * nat (CV_MAT_CN (CV_MAT_TYPE t)) \<noteq> 0" by simp
  with assms show ?thesis
    by (simp add: cv_Mat_new_def Let_def Mat_empty_def)
qed

lemma initialize_finish_empty:
  "Mat_empty m \<Longrightarrow> initialize_finish h m = (Inl (NoMemError ''Failed to create matrix''), h @ [None])"
  by (simp add: initialize_finish_def new_Mat_def delete_Mat_def)

lemma initialize_finish_nonempty:
  "\<not> Mat_empty m \<Longrightarrow> initialize_finish h m = (Inr (MatObj (length h)), h @ [Some m])"
  by (simp add: initialize_finish_def new_Mat_def)

lemma isEmpty_new: "isEmpty (h @ [Some m]) (MatObj (length h)) = Some (Mat_empty m)"
  by (simp add: isEmpty_def mat_at_def)

text \<open>
  Claim C3, as the code has it. The claim lets a construction with zero rows or zero
  columns succeed with an empty handle; \<open>rb_initialize\<close> guards against exactly that.
  For nonnegative sizes and a type code that fit \<open>int\<close>: when \<open>rows = 0\<close> or
  \<open>cols = 0\<close> the construction fails with \<open>NoMemError\<close> and the header allocated for
  it is deleted again; when both are positive and the allocation succeeds, the construction
  succeeds, the handle has the requested size, and its \<open>isEmpty\<close> is false.
\<close>

theorem rb_initialize_isEmpty:
  assumes "0 \<le> r" "r \<le> INT_MAX" "0 \<le> c" "c \<le> INT_MAX" "INT_MIN \<le> t" "t \<le> INT_MAX"
  shows "(r = 0 \<or> c = 0 \<longrightarrow>
            rb_initialize limit h [Fixnum r, Fixnum c, Fixnum t]
              = (Inl (NoMemError ''Failed to create matrix''), h @ [None]))
       \<and> (0 < r \<and> 0 < c \<and> nat r * nat c * nat (CV_MAT_CN (CV_MAT_TYPE t)) \<le> limit \<longrightarrow>
            (\<exists>m. rb_initialize limit h [Fixnum r, Fixnum c, Fixnum t]
                    = (Inr (MatObj (length h)), h @ [Some m])
                \<and> rows m = r \<and> cols m = c
                \<and> isEmpty (h @ [Some m]) (MatObj (length h)) = Some False))"
proof (intro conjI impI)
  have rng: "INT_MIN \<le> r" "INT_MIN \<le> c" using assms by (simp_all add: INT_MIN_def)
  {
    assume z: "r = 0 \<or> c = 0"
    from cv_Mat_new_zero [OF assms(1) assms(3) z, of limit t]
    obtain m where m: "cv_Mat_new limit r c t = Inr m" "Mat_empty m" by blast
    show "rb_initialize limit h [Fixnum r, Fixnum c, Fixnum t]
              = (Inl (NoMemError ''Failed to create matrix''), h @ [None])"
      using assms rng m by (simp add: initialize_finish_empty)
  }
  {
    assume p: "0 < r \<and> 0 < c \<and> nat r * nat c * nat (CV_MAT_CN (CV_MAT_TYPE t)) \<le> limit"
    then obtain m where m: "cv_Mat_new limit r c t = Inr m" "\<not> Mat_empty m" "rows m = r" "cols m = c"
      using cv_Mat_new_pos [of r c t limit] by blast
    have "rb_initialize limit h [Fixnum r, Fixnum c, Fixnum t]
                    = (Inr (MatObj (length h)), h @ [Some m])"
      using assms rng m by (simp add: initialize_finish_nonempty)
    with m show "\<exists>m. rb_initialize limit h [Fixnum r, Fixnum c, Fixnum t]
                    = (Inr (MatObj (length h)), h @ [Some m])
                \<and> rows m = r \<and> cols m = c
                \<and> isEmpty (h @ [Some m]) (MatObj (length h)) = Some False"
      by (auto simp: isEmpty_new)
  }
qed

theorem rb_initialize_isEmpty_witness:
  "rb_initialize 100 [] [Fixnum 0, Fixnum 4, Fixnum 16]
      = (Inl (NoMemError ''Failed to create matrix''), [None])
   \<and> (\<exists>m. rb_initialize 100 [] [Fixnum 3, Fixnum 4, Fixnum 16] = (Inr (MatObj 0), [Some m])
        \<and> rows m = 3 \<and> cols m = 4 \<and> isEmpty [Some m] (MatObj 0) = Some False)"
proof -
  have a: "nat 3 * nat 4 * nat (CV_MAT_CN (CV_MAT_TYPE 16)) \<le> 100"
    by (simp add: CV_MAT_CN_def CV_MAT_TYPE_def)
  have r: "(0::int) \<le> 3" "(3::int) \<le> INT_MAX" "(0::int) \<le> 4" "(4::int) \<le> INT_MAX"
          "INT_MIN \<le> 16" "(16::int) \<le> INT_MAX" "(0::int) \<le> 0" "(0::int) \<le> INT_MAX"
    by (simp_all add: INT_MAX_def INT_MIN_def)
  show ?thesis
    using rb_initialize_isEmpty [OF r(7) r(8) r(3) r(4) r(5) r(6), of 100 "[]"]
          rb_initialize_isEmpty [OF r(1) r(2) r(3) r(4) r(5) r(6), of 100 "[]"] a
    by simp
qed

text \<open>
  The claim C3 as stated fails: a construction with zero rows and four columns is an
  error, not an empty handle.
\<close>

theorem rb_initialize_zero_rows_counterexample:
  "rb_initialize 100 [] [Fixnum 0, Fixnum 4, Fixnum CV_8UC1]
     = (Inl (NoMemError ''Failed to create matrix''), [None])"
  by (simp add: CV_8UC1_val INT_MIN_def INT_MAX_def cv_Mat_new_def CV_MAT_TYPE_def CV_MAT_CN_def
        initialize_finish_def new_Mat_def delete_Mat_def Mat_empty_def)

text \<open>
  Claim C10: the two-argument form, with the element type omitted, constructs a matrix of
  type \<open>CV_8UC1\<close>: depth 8-bit unsigned, one channel, and so not the three channels
  the example in the source comment announces.
\<close>

theorem rb_initialize_default_type:
  assumes "0 < r" "r \<le> INT_MAX" "0 < c" "c \<le> INT_MAX" "nat r * nat c \<le> limit"
  shows "\<exists>m. rb_initialize limit h [Fixnum r, Fixnum c] = (Inr (MatObj (length h)), h @ [Some m])
           \<and> mtype m = CV_8UC1 \<and> depth m = CV_8U \<and> channels m = 1 \<and> channels m \<noteq> 3"
proof -
  have cn: "CV_MAT_CN (CV_MAT_TYPE CV_8UC1) = 1"
    by (simp add: CV_8UC1_val CV_MAT_CN_def CV_MAT_TYPE_def)
  have ty: "CV_MAT_TYPE CV_8UC1 = CV_8UC1"
    by (simp add: CV_8UC1_val CV_MAT_TYPE_def)
  from assms cn obtain m where m: "cv_Mat_new limit r c CV_8UC1 = Inr m" "\<not> Mat_empty m"
      "mtype m = CV_MAT_TYPE CV_8UC1"
    using cv_Mat_new_pos [of r c CV_8UC1 limit] by auto
  have rng: "INT_MIN \<le> r" "INT_MIN \<le> c" using assms by (simp_all add: INT_MIN_def)
  have "rb_initialize limit h [Fixnum r, Fixnum c] = (Inr (MatObj (length h)), h @ [Some m])"
    using assms rng m by (simp add: initialize_finish_nonempty)
  moreover have "depth m = CV_8U" "channels m = 1"
    using m(3) by (simp_all add: depth_def channels_def CV_8UC1_val CV_MAT_TYPE_def
        CV_MAT_DEPTH_def CV_MAT_CN_def CV_8U_def)
  ultimately show ?thesis using m(3) ty by auto
qed

theorem rb_initialize_default_type_witness:
  "\<exists>m. rb_initialize 100 [] [Fixnum 3, Fixnum 4] = (Inr (MatObj 0), [Some m])
           \<and> mtype m = CV_8UC1 \<and> depth m = CV_8U \<and> channels m = 1 \<and> channels m \<noteq> 3"
proof -
  have r: "(0::int) < 3" "(3::int) \<le> INT_MAX" "(0::int) < 4" "(4::int) \<le> INT_MAX"
          "nat 3 * nat 4 \<le> (100::nat)"
    by (simp_all add: INT_MAX_def)
  show ?thesis
    using rb_initialize_default_type [OF r, of "[]"] by simp
qed

section \<open>Properties of element access and of the operators\<close>

lemmas depth_consts = CV_8U_def CV_8S_def CV_16U_def CV_16S_def CV_32S_def CV_32F_def CV_64F_def

lemma aref_switch_table:
  "aref_switch junk m index =
     (case spec_depth_ctype (depth m) of
        None \<Rightarrow> Inl (StandardError ''Invalid depth'')
      | Some T \<Rightarrow> at_Scalar junk T m index)"
  by (simp add: aref_switch_def spec_depth_ctype_def depth_consts Let_def)

lemma aset_switch_table:
  "aset_switch to_float m y x s =
     (case spec_depth_ctype (depth m) of
        None \<Rightarrow> Inl (StandardError ''Invalid depth'')
      | Some T \<Rightarrow> aset_at (cast_to to_float T) m y x s)"
  by (simp add: aset_switch_def spec_depth_ctype_def depth_consts Let_def)

text \<open>
  Claim C7: element get and set fail with the depth error (\<open>StandardError\<close>, message
  "Invalid depth") exactly when the depth of the handle is not one of the seven supported
  kinds, and for each supported depth they run the read or the write of the matching C
  type. The hypotheses say that the receiver is a live matrix and that the arguments convert
  to C integers, which the code does before it looks at the depth.
\<close>

theorem depth_dispatch:
  assumes "mat_at h p = Some m"
    and "index_loop args = Inr index" and "length args \<le> CV_MAX_DIM"
    and "NUM2INT row = Inr y" and "NUM2INT col = Inr c"
    and "INT_MIN \<le> c * channels m" and "c * channels m \<le> INT_MAX"
  shows "(spec_depth_ctype (depth m) = None) =
           (depth m \<notin> {CV_8U, CV_8S, CV_16U, CV_16S, CV_32S, CV_32F, CV_64F})
       \<and> (case spec_depth_ctype (depth m) of
           None \<Rightarrow>
             rb_aref junk h (MatObj p) args = (Inl (StandardError ''Invalid depth''), h)
             \<and> rb_aset to_float h (MatObj p) row col (ScalarObj s)
                 = (Inl (StandardError ''Invalid depth''), h)
         | Some T \<Rightarrow>
             rb_aref junk h (MatObj p) args
                 = (case at_Scalar junk T m index of
                      Inl e \<Rightarrow> (Inl e, h) | Inr v \<Rightarrow> (Inr (ScalarObj v), h))
             \<and> rb_aset to_float h (MatObj p) row col (ScalarObj s)
                 = (case aset_at (cast_to to_float T) m y (c * channels m) s of
                      Inl e \<Rightarrow> (Inl e, h) | Inr m1 \<Rightarrow> (Inr (MatObj p), h[p := Some m1])))"
proof (rule conjI)
  show "(spec_depth_ctype (depth m) = None) =
           (depth m \<notin> {CV_8U, CV_8S, CV_16U, CV_16S, CV_32S, CV_32F, CV_64F})"
    by (simp add: spec_depth_ctype_def depth_consts)
  have a: "rb_aref junk h (MatObj p) args
             = (case aref_switch junk m index of Inl e \<Rightarrow> (Inl e, h) | Inr v \<Rightarrow> (Inr (ScalarObj v), h))"
    using assms(1-3) by (simp add: rb_aref_def CV_MAX_DIM_def)
  have b: "rb_aset to_float h (MatObj p) row col (ScalarObj s)
             = (case aset_switch to_float m y (c * channels m) s of
                  Inl e \<Rightarrow> (Inl e, h) | Inr m1 \<Rightarrow> (Inr (MatObj p), h[p := Some m1]))"
    using assms(1,4-7) by (simp add: rb_aset_def Let_def)
  show "case spec_depth_ctype (depth m) of
           None \<Rightarrow>
             rb_aref junk h (MatObj p) args = (Inl (StandardError ''Invalid depth''), h)
             \<and> rb_aset to_float h (MatObj p) row col (ScalarObj s)
                 = (Inl (StandardError ''Invalid depth''), h)
         | Some T \<Rightarrow>
             rb_aref junk h (MatObj p) args
                 = (case at_Scalar junk T m index of
                      Inl e \<Rightarrow> (Inl e, h) | Inr v \<Rightarrow> (Inr (ScalarObj v), h))
             \<and> rb_aset to_float h (MatObj p) row col (ScalarObj s)
                 = (case aset_at (cast_to to_float T) m y (c * channels m) s of
                      Inl e \<Rightarrow> (Inl e, h) | Inr m1 \<Rightarrow> (Inr (MatObj p), h[p := Some m1]))"
    unfolding a b aref_switch_table aset_switch_table
    by (simp split: option.split)
qed

theorem depth_dispatch_witness:
  "rb_aref (\<lambda>k. 0) [Some \<lparr>rows = 1, cols = 4, mtype = 7, step1 = 4, data = Some 0,
                  buf = [Opaque, Opaque, Opaque, Opaque]\<rparr>] (MatObj 0) [Fixnum 0, Fixnum 0]
     = (Inl (StandardError ''Invalid depth''),
        [Some \<lparr>rows = 1, cols = 4, mtype = 7, step1 = 4, data = Some 0,
                buf = [Opaque, Opaque, Opaque, Opaque]\<rparr>])
   \<and> rb_aset (\<lambda>x. x) [Some \<lparr>rows = 1, cols = 4, mtype = 7, step1 = 4, data = Some 0,
                  buf = [Opaque, Opaque, Opaque, Opaque]\<rparr>] (MatObj 0) (Fixnum 0) (Fixnum 0)
         (ScalarObj (Scalar 1 0 0 0))
     = (Inl (StandardError ''Invalid depth''),
        [Some \<lparr>rows = 1, cols = 4, mtype = 7, step1 = 4, data = Some 0,
                buf = [Opaque, Opaque, Opaque, Opaque]\<rparr>])
   \<and> rb_aref (\<lambda>k. 0) [Some \<lparr>rows = 1, cols = 4, mtype = 2, step1 = 4, data = Some 0,
                  buf = [U16 7, U16 8, U16 9, U16 10]\<rparr>] (MatObj 0) [Fixnum 0, Fixnum 0]
     = (Inr (ScalarObj (Scalar 7 8 9 10)),
        [Some \<lparr>rows = 1, cols = 4, mtype = 2, step1 = 4, data = Some 0,
                buf = [U16 7, U16 8, U16 9, U16 10]\<rparr>])"
proof -
  let ?m = "\<lparr>rows = 1, cols = 4, mtype = 7, step1 = 4, data = Some 0,
                  buf = [Opaque, Opaque, Opaque, Opaque]\<rparr>"
  let ?n = "\<lparr>rows = 1, cols = 4, mtype = 2, step1 = 4, data = Some 0,
                  buf = [U16 7, U16 8, U16 9, U16 10]\<rparr>"
  have h: "mat_at [Some ?m] 0 = Some ?m" "mat_at [Some ?n] 0 = Some ?n"
    by (simp_all add: mat_at_def)
  have i: "index_loop [Fixnum 0, Fixnum 0] = Inr [0, 0]" "length [Fixnum 0, Fixnum 0] \<le> CV_MAX_DIM"
          "NUM2INT (Fixnum 0) = Inr 0"
    by (simp_all add: INT_MIN_def INT_MAX_def CV_MAX_DIM_def)
  have r: "INT_MIN \<le> 0 * channels ?m" "0 * channels ?m \<le> INT_MAX"
          "INT_MIN \<le> 0 * channels ?n" "0 * channels ?n \<le> INT_MAX"
    by (simp_all add: INT_MIN_def INT_MAX_def)
  have d: "depth ?m = 7" "depth ?n = 2" "channels ?n = 1"
    by (simp_all add: depth_def channels_def CV_MAT_DEPTH_def CV_MAT_CN_def)
  show ?thesis
    using depth_dispatch [OF h(1) i(1) i(2) i(3) i(3) r(1) r(2),
            where junk = "\<lambda>k. 0" and to_float = "\<lambda>x. x" and s = "Scalar 1 0 0 0"]
          depth_dispatch [OF h(2) i(1) i(2) i(3) i(3) r(3) r(4),
            where junk = "\<lambda>k. 0" and to_float = "\<lambda>x. x" and s = "Scalar 1 0 0 0"]
    by (simp add: d spec_depth_ctype_def depth_consts at_Scalar_def elem_offset_def
          scalar_val_def own_def peek_def)
qed


lemma and_bit_int: "((t::int) AND 2 ^ n \<noteq> 0) = bit t n"
  by (simp add: and_exp_eq_0_iff_not_bit)

text \<open>
  Claim C8: when the kernel succeeds, \<open>rb_threshold\<close> returns the pair of the output
  matrix and the computed threshold exactly when bit 3 (\<open>THRESH_OTSU\<close> = 8) or bit 4
  (\<open>THRESH_TRIANGLE\<close> = 16) of the threshold type is set, and the output matrix alone
  otherwise; nothing else decides the shape.
\<close>

theorem rb_threshold_shape:
  assumes "mat_at h p = Some m"
    and "NUM2INT threshold_type = Inr t"
    and "NUM2DBL threshold = Inr th" and "NUM2DBL max_value = Inr mv"
    and "cv_threshold m th mv t = Inr (optimal, d)"
  shows "rb_threshold cv_threshold h (MatObj p) threshold max_value threshold_type =
           (if bit t 3 \<or> bit t 4
            then (Inr (RArray [MatObj (length h), RFloat optimal]), h @ [Some d])
            else (Inr (MatObj (length h)), h @ [Some d]))"
proof -
  have "(t AND THRESH_OTSU \<noteq> 0) = bit t 3" "(t AND THRESH_TRIANGLE \<noteq> 0) = bit t 4"
    using and_bit_int [of t 3] and_bit_int [of t 4]
    by (simp_all add: THRESH_OTSU_def THRESH_TRIANGLE_def)
  then show ?thesis
    using assms by (simp add: rb_threshold_def new_Mat_def Let_def)
qed

theorem rb_threshold_shape_witness:
  "rb_threshold (\<lambda>m th mv t. Inr (th, m)) [Some Mat_default] (MatObj 0)
       (Fixnum 100) (Fixnum 255) (Fixnum 8)
     = (Inr (RArray [MatObj 1, RFloat 100]), [Some Mat_default, Some Mat_default])
   \<and> rb_threshold (\<lambda>m th mv t. Inr (th, m)) [Some Mat_default] (MatObj 0)
       (Fixnum 100) (Fixnum 255) (Fixnum 1)
     = (Inr (MatObj 1), [Some Mat_default, Some Mat_default])"
proof -
  have a: "mat_at [Some Mat_default] 0 = Some Mat_default" by (simp add: mat_at_def)
  have b: "NUM2INT (Fixnum 8) = Inr 8" "NUM2INT (Fixnum 1) = Inr 1"
    by (simp_all add: INT_MIN_def INT_MAX_def)
  have c: "NUM2DBL (Fixnum 100) = Inr 100" "NUM2DBL (Fixnum 255) = Inr 255" by simp_all
  have bits: "bit (8::int) 3" "\<not> bit (1::int) 3" "\<not> bit (1::int) 4"
    by simp_all
  show ?thesis
    using rb_threshold_shape [where cv_threshold = "\<lambda>m th mv t. Inr (th, m)", OF a b(1) c]
          rb_threshold_shape [where cv_threshold = "\<lambda>m th mv t. Inr (th, m)", OF a b(2) c] bits
    by simp
qed


lemma allocated_append_None: "allocated (h @ [None]) = allocated h"
  by (auto simp: allocated_def nth_append intro!: filter_cong)

text \<open>
  Claim C6: \<open>absdiff\<close> with an operand that is neither a matrix nor a scalar fails with
  \<open>TypeError\<close>, and the output header allocated before the test is deleted again, so
  the allocated headers are those of before the call. With a matrix or a scalar operand,
  and the kernel succeeding, it returns a new matrix: a header at an address that was not
  allocated before, holding the kernel's result. When the kernel throws, the error is
  raised and the output header is deleted as well.
\<close>

theorem rb_absdiff_operand:
  assumes "mat_at h p = Some m"
  shows "(\<not> is_Mat other \<and> \<not> is_Scalar other \<longrightarrow>
            rb_absdiff kern h (MatObj p) other = (Inl TypeError, h @ [None])
            \<and> allocated (h @ [None]) = allocated h)
       \<and> (\<forall>q b r. mat_at h q = Some b \<and> kern (MatMat AbsDiff m b) = Inr r \<longrightarrow>
            rb_absdiff kern h (MatObj p) (MatObj q) = (Inr (MatObj (length h)), h @ [Some r])
            \<and> mat_at h (length h) = None)
       \<and> (\<forall>s r. kern (MatScalar AbsDiff m s) = Inr r \<longrightarrow>
            rb_absdiff kern h (MatObj p) (ScalarObj s) = (Inr (MatObj (length h)), h @ [Some r])
            \<and> mat_at h (length h) = None)
       \<and> (\<forall>q b e. mat_at h q = Some b \<and> kern (MatMat AbsDiff m b) = Inl e \<longrightarrow>
            rb_absdiff kern h (MatObj p) (MatObj q) = (Inl (CvError e), h @ [None]))
       \<and> (\<forall>s e. kern (MatScalar AbsDiff m s) = Inl e \<longrightarrow>
            rb_absdiff kern h (MatObj p) (ScalarObj s) = (Inl (CvError e), h @ [None]))"
  using assms
  by (auto simp: rb_absdiff_def new_Mat_def delete_Mat_def allocated_append_None mat_at_def)

theorem rb_absdiff_operand_witness:
  "rb_absdiff (\<lambda>c. Inr Mat_default) [Some Mat_default] (MatObj 0) (Fixnum 3)
      = (Inl TypeError, [Some Mat_default, None])
   \<and> allocated [Some Mat_default, None] = allocated [Some Mat_default]
   \<and> rb_absdiff (\<lambda>c. Inr Mat_default) [Some Mat_default] (MatObj 0) (MatObj 0)
      = (Inr (MatObj 1), [Some Mat_default, Some Mat_default])
   \<and> rb_absdiff (\<lambda>c. Inr Mat_default) [Some Mat_default] (MatObj 0) (ScalarObj (Scalar 1 2 3 4))
      = (Inr (MatObj 1), [Some Mat_default, Some Mat_default])
   \<and> rb_absdiff (\<lambda>c. Inl (CvException ''size'')) [Some Mat_default] (MatObj 0) (MatObj 0)
      = (Inl (CvError (CvException ''size'')), [Some Mat_default, None])"
proof -
  have a: "mat_at [Some Mat_default] 0 = Some Mat_default" by (simp add: mat_at_def)
  show ?thesis
    using rb_absdiff_operand [OF a, of "Fixnum 3" "\<lambda>c. Inr Mat_default"]
          rb_absdiff_operand [OF a, of "Fixnum 3" "\<lambda>c. Inl (CvException ''size'')"] a
    by simp
qed

text \<open>
  Claim C4 at a scalar right operand: \<open>+\<close> and \<open>-\<close> hand the scalar to the
  matrix-scalar kernel, but \<open>*\<close> and \<open>/\<close> have no such branch; they pass the scalar
  object to \<open>NUM2DBL\<close>, which raises \<open>TypeError\<close>, and no kernel is called.
\<close>

theorem Scalar_operand_dispatch:
  assumes "mat_at h p = Some m"
  shows "rb_add kern h (MatObj p) (ScalarObj s) = wrap_new h (Error_raise (kern (MatScalar Add m s)))
       \<and> rb_sub kern h (MatObj p) (ScalarObj s) = wrap_new h (Error_raise (kern (MatScalar Sub m s)))
       \<and> rb_mul kern h (MatObj p) (ScalarObj s) = (Inl TypeError, h)
       \<and> rb_div kern h (MatObj p) (ScalarObj s) = (Inl TypeError, h)"
  using assms
  by (simp add: rb_add_def rb_sub_def rb_mul_def rb_div_def wrap_new_def)

theorem Scalar_operand_dispatch_witness:
  "rb_add (\<lambda>c. Inr Mat_default) [Some Mat_default] (MatObj 0) (ScalarObj (Scalar 2 2 2 2))
      = (Inr (MatObj 1), [Some Mat_default, Some Mat_default])
   \<and> rb_mul (\<lambda>c. Inr Mat_default) [Some Mat_default] (MatObj 0) (ScalarObj (Scalar 2 2 2 2))
      = (Inl TypeError, [Some Mat_default])
   \<and> rb_div (\<lambda>c. Inr Mat_default) [Some Mat_default] (MatObj 0) (ScalarObj (Scalar 2 2 2 2))
      = (Inl TypeError, [Some Mat_default])"
proof -
  have a: "mat_at [Some Mat_default] 0 = Some Mat_default" by (simp add: mat_at_def)
  show ?thesis
    using Scalar_operand_dispatch [OF a, of "\<lambda>c. Inr Mat_default" "Scalar 2 2 2 2"]
    by (simp add: wrap_new_def Error_raise_def new_Mat_def)
qed

text \<open>
  Claim C2 at a codec that recognises no image in the bytes and, as \<open>cv::imdecode\<close>
  does, leaves the output matrix empty without throwing: \<open>rb_imdecode_internal\<close>
  returns a handle on the empty matrix. \<open>rb_imread_internal\<close>, in the same situation,
  tests \<open>empty()\<close> and raises.
\<close>

theorem rb_imdecode_unrecognized:
  "rb_imdecode_internal (\<lambda>bytes flags dst. Inr dst) []
       (RArray [Fixnum 1, Fixnum 2, Fixnum 3]) (Fixnum 1)
     = (Inr (MatObj 0), [Some Mat_default])
   \<and> isEmpty [Some Mat_default] (MatObj 0) = Some True
   \<and> rb_imread_internal (\<lambda>name flags. Inr Mat_default) [] (RString ''x.png'') (Fixnum 1)
     = (Inl (StandardError ''Failed to load image''), [])"
  by (simp add: INT_MIN_def INT_MAX_def new_Mat_def isEmpty_def mat_at_def Mat_empty_def
        Mat_default_def)


lemma split_loop_result:
  "n \<le> length splitted \<Longrightarrow> i \<le> n \<Longrightarrow>
   split_loop splitted i n h acc =
     (Inr (acc @ map MatObj [length h ..< length h + (n - i)]),
      h @ map Some (take (n - i) (drop i splitted)))"
proof (induction splitted i n h acc rule: split_loop.induct)
  case (1 splitted i n h result)
  show ?case
  proof (cases "i < n")
    case False
    with "1.prems" show ?thesis by (subst split_loop.simps) simp
  next
    case True
    with "1.prems" have len: "i < length splitted" by simp
    have ni: "n - i = Suc (n - Suc i)" using True by simp
    have step: "split_loop splitted i n h result =
                split_loop splitted (Suc i) n (h @ [Some (splitted ! i)]) (result @ [MatObj (length h)])"
      using True len by (subst split_loop.simps) (simp add: new_Mat_def)
    have ih: "split_loop splitted (Suc i) n (h @ [Some (splitted ! i)]) (result @ [MatObj (length h)]) =
        (Inr ((result @ [MatObj (length h)])
              @ map MatObj [length (h @ [Some (splitted ! i)])
                            ..< length (h @ [Some (splitted ! i)]) + (n - Suc i)]),
         (h @ [Some (splitted ! i)]) @ map Some (take (n - Suc i) (drop (Suc i) splitted)))"
      using "1.IH" [OF True len, of "length h" "h @ [Some (splitted ! i)]"] "1.prems" True
      by (simp add: new_Mat_def)
    have up: "[length h ..< length h + (n - i)]
                = length h # [Suc (length h) ..< Suc (length h) + (n - Suc i)]"
      unfolding ni by (simp add: upt_conv_Cons)
    have dr: "take (n - i) (drop i splitted)
                = splitted ! i # take (n - Suc i) (drop (Suc i) splitted)"
      unfolding ni using len by (simp add: Cons_nth_drop_Suc [symmetric])
    show ?thesis unfolding step ih up dr by simp
  qed
qed

lemma split_loop_short:
  "i < n \<Longrightarrow> length splitted \<le> i \<Longrightarrow> split_loop splitted i n h acc = (Inl Undefined, h)"
  by (subst split_loop.simps) simp

text \<open>
  When \<open>cv::split\<close> delivers one plane per channel of the receiver, \<open>rb_split\<close>
  returns that many matrix objects, the object at position \<open>i\<close> wrapping a new header
  that holds plane \<open>i\<close>.
\<close>

lemma rb_split_planes:
  assumes "mat_at h p = Some m"
    and "cv_split m = Inr planes"
    and "length planes = nat (channels m)"
    and "\<forall>x \<in> set planes. channels x = 1"
  shows "rb_split cv_split h (MatObj p) =
           (Inr (RArray (map MatObj [length h ..< length h + nat (channels m)])),
            h @ map Some planes)
       \<and> length (map MatObj [length h ..< length h + nat (channels m)]) = nat (channels m)
       \<and> (\<forall>i < nat (channels m).
            mat_at (h @ map Some planes) ([length h ..< length h + nat (channels m)] ! i)
              = Some (planes ! i)
            \<and> channels (planes ! i) = 1)"
proof -
  have "split_loop planes 0 (nat (channels m)) h [] =
          (Inr (map MatObj [length h ..< length h + nat (channels m)]), h @ map Some planes)"
    using split_loop_result [of "nat (channels m)" planes 0 h "[]"] assms(3) by simp
  then have "rb_split cv_split h (MatObj p) =
           (Inr (RArray (map MatObj [length h ..< length h + nat (channels m)])),
            h @ map Some planes)"
    using assms(1,2) by (simp add: rb_split_def)
  moreover have "\<forall>i < nat (channels m).
            mat_at (h @ map Some planes) ([length h ..< length h + nat (channels m)] ! i)
              = Some (planes ! i)
            \<and> channels (planes ! i) = 1"
    using assms(3,4) by (simp add: mat_at_def nth_append)
  ultimately show ?thesis by simp
qed

text \<open>
  Claim C9 at an empty receiver. \<open>Cv::Mat.zeros(0, 4, CV_8UC3)\<close> is handed out by
  \<open>rb_zeros\<close>, which has no guard: an empty matrix of three channels. For an empty
  source \<open>cv::split\<close> returns without a plane. \<open>rb_split\<close> still runs its loop up to
  \<open>channels()\<close> and reads \<open>splitted[0]\<close> beyond the end of the vector: undefined
  behaviour, where the claim has a sequence of three matrices.
\<close>

theorem rb_split_empty_receiver:
  "rb_zeros 100 [] (Fixnum 0) (Fixnum 4) (Fixnum 16)
     = (Inr (MatObj 0),
        [Some \<lparr>rows = 0, cols = 4, mtype = 16, step1 = 12, data = None, buf = []\<rparr>])
   \<and> isEmpty [Some \<lparr>rows = 0, cols = 4, mtype = 16, step1 = 12, data = None, buf = []\<rparr>]
        (MatObj 0) = Some True
   \<and> channels \<lparr>rows = 0, cols = 4, mtype = 16, step1 = 12, data = None, buf = []\<rparr> = 3
   \<and> rb_split (\<lambda>m. Inr [])
        [Some \<lparr>rows = 0, cols = 4, mtype = 16, step1 = 12, data = None, buf = []\<rparr>] (MatObj 0)
     = (Inl Undefined,
        [Some \<lparr>rows = 0, cols = 4, mtype = 16, step1 = 12, data = None, buf = []\<rparr>])"
proof -
  let ?e = "\<lparr>rows = 0, cols = 4, mtype = 16, step1 = 12, data = None, buf = []\<rparr>"
  have z: "cv_Mat_zeros 100 0 4 16 = Inr ?e"
    by (simp add: cv_Mat_zeros_def cv_Mat_new_def CV_MAT_TYPE_def CV_MAT_CN_def Let_def)
  have 1: "rb_zeros 100 [] (Fixnum 0) (Fixnum 4) (Fixnum 16) = (Inr (MatObj 0), [Some ?e])"
    using z by (simp add: rb_zeros_def INT_MIN_def INT_MAX_def Error_raise_def new_Mat_def)
  have 2: "isEmpty [Some ?e] (MatObj 0) = Some True"
    by (simp add: isEmpty_def mat_at_def Mat_empty_def)
  have 3: "channels ?e = 3"
    by (simp add: channels_def CV_MAT_CN_def)
  have "split_loop [] 0 (nat (channels ?e)) [Some ?e] [] = (Inl Undefined, [Some ?e])"
    by (rule split_loop_short) (simp_all add: 3)
  then have 4: "rb_split (\<lambda>m. Inr []) [Some ?e] (MatObj 0) = (Inl Undefined, [Some ?e])"
    by (simp add: rb_split_def mat_at_def)
  show ?thesis using 1 2 3 4 by simp
qed

section \<open>Reading back what was written\<close>












lemma u8c1_header:
  "depth \<lparr>rows = r, cols = c, mtype = 0, step1 = st, data = d, buf = b\<rparr> = CV_8U"
  "channels \<lparr>rows = r, cols = c, mtype = 0, step1 = st, data = d, buf = b\<rparr> = 1"
  "spec_depth_ctype CV_8U = Some T_uchar"
  by (simp_all add: depth_def channels_def CV_MAT_DEPTH_def CV_MAT_CN_def CV_8U_def
        spec_depth_ctype_def)



text \<open>
  Claim C5: the scenario of the specification, for every kernel that computes the sum of
  this matrix and 3 as the library documents it. The zero matrix is created, element
  \<open>(0, 0)\<close> is set to 5 and reads back as 5; \<open>m + 3\<close> returns a new object, whose
  header holds 8 at \<open>(0, 0)\<close> and 3 elsewhere, and the header of \<open>m\<close> in the heap
  after the addition is the one from before it.
\<close>

theorem scalar_add_pure:
  assumes "4 \<le> limit"
    and "kern (MatDouble Add
            \<lparr>rows = 2, cols = 2, mtype = 0, step1 = 2, data = Some 0,
             buf = [U8 5, U8 0, U8 0, U8 0]\<rparr> 3)
          = Inr (cv_add_u8
            \<lparr>rows = 2, cols = 2, mtype = 0, step1 = 2, data = Some 0,
             buf = [U8 5, U8 0, U8 0, U8 0]\<rparr> (Scalar 3 0 0 0))"
  shows "rb_zeros limit [] (Fixnum 2) (Fixnum 2) (Fixnum CV_8UC1)
           = (Inr (MatObj 0),
              [Some \<lparr>rows = 2, cols = 2, mtype = 0, step1 = 2, data = Some 0,
                     buf = [U8 0, U8 0, U8 0, U8 0]\<rparr>])
       \<and> rb_aset to_float
             [Some \<lparr>rows = 2, cols = 2, mtype = 0, step1 = 2, data = Some 0,
                    buf = [U8 0, U8 0, U8 0, U8 0]\<rparr>]
             (MatObj 0) (Fixnum 0) (Fixnum 0) (ScalarObj (Scalar 5 0 0 0))
           = (Inr (MatObj 0),
              [Some \<lparr>rows = 2, cols = 2, mtype = 0, step1 = 2, data = Some 0,
                     buf = [U8 5, U8 0, U8 0, U8 0]\<rparr>])
       \<and> rb_aref junk
             [Some \<lparr>rows = 2, cols = 2, mtype = 0, step1 = 2, data = Some 0,
                    buf = [U8 5, U8 0, U8 0, U8 0]\<rparr>]
             (MatObj 0) [Fixnum 0, Fixnum 0]
           = (Inr (ScalarObj (Scalar 5 0 0 0)),
              [Some \<lparr>rows = 2, cols = 2, mtype = 0, step1 = 2, data = Some 0,
                     buf = [U8 5, U8 0, U8 0, U8 0]\<rparr>])
       \<and> rb_add kern
             [Some \<lparr>rows = 2, cols = 2, mtype = 0, step1 = 2, data = Some 0,
                    buf = [U8 5, U8 0, U8 0, U8 0]\<rparr>]
             (MatObj 0) (Fixnum 3)
           = (Inr (MatObj 1),
              [Some \<lparr>rows = 2, cols = 2, mtype = 0, step1 = 2, data = Some 0,
                     buf = [U8 5, U8 0, U8 0, U8 0]\<rparr>,
               Some \<lparr>rows = 2, cols = 2, mtype = 0, step1 = 2, data = Some 0,
                     buf = [U8 8, U8 3, U8 3, U8 3]\<rparr>])"
proof -
  let ?m0 = "\<lparr>rows = 2, cols = 2, mtype = 0, step1 = 2, data = Some 0,
                     buf = [U8 0, U8 0, U8 0, U8 0]\<rparr>"
  let ?m1 = "\<lparr>rows = 2, cols = 2, mtype = 0, step1 = 2, data = Some 0,
                     buf = [U8 5, U8 0, U8 0, U8 0]\<rparr>"
  let ?r = "\<lparr>rows = 2, cols = 2, mtype = 0, step1 = 2, data = Some 0,
                     buf = [U8 8, U8 3, U8 3, U8 3]\<rparr>"
  have z: "cv_Mat_zeros limit 2 2 CV_8UC1 = Inr ?m0"
    using assms(1)
    by (simp add: cv_Mat_zeros_def cv_Mat_new_def CV_8UC1_val CV_MAT_TYPE_def CV_MAT_CN_def
          Let_def depth_def CV_MAT_DEPTH_def zero_cell_def CV_8U_def numeral_eq_Suc)
  have 1: "rb_zeros limit [] (Fixnum 2) (Fixnum 2) (Fixnum CV_8UC1) = (Inr (MatObj 0), [Some ?m0])"
    using z by (simp add: rb_zeros_def INT_MIN_def INT_MAX_def CV_8UC1_val Error_raise_def new_Mat_def)
  have 2: "rb_aset to_float [Some ?m0] (MatObj 0) (Fixnum 0) (Fixnum 0) (ScalarObj (Scalar 5 0 0 0))
             = (Inr (MatObj 0), [Some ?m1])"
    by (simp add: rb_aset_def mat_at_def INT_MIN_def INT_MAX_def u8c1_header
          aset_switch_table aset_at_def elem_offset_def trunc0_def double_to_int_def)
  have 3: "rb_aref junk [Some ?m1] (MatObj 0) [Fixnum 0, Fixnum 0]
             = (Inr (ScalarObj (Scalar 5 0 0 0)), [Some ?m1])"
    by (simp add: rb_aref_def mat_at_def INT_MIN_def INT_MAX_def u8c1_header
          aref_switch_table at_Scalar_def elem_offset_def CV_MAX_DIM_def
          scalar_val_def own_def peek_def)
  have sat: "saturate_uchar 8 = 8" "saturate_uchar 3 = 3"
    by (simp_all add: saturate_uchar_def cvRound_def)
  have k: "cv_add_u8 ?m1 (Scalar 3 0 0 0) = ?r"
    by (simp add: cv_add_u8_def u8c1_header upt_conv_Cons sat)
  have 4: "rb_add kern [Some ?m1] (MatObj 0) (Fixnum 3) = (Inr (MatObj 1), [Some ?m1, Some ?r])"
    using assms(2) k
    by (simp add: rb_add_def mat_at_def wrap_new_def Error_raise_def new_Mat_def)
  show ?thesis using 1 2 3 4 by simp
qed

theorem scalar_add_pure_witness:
  "rb_add (\<lambda>call. Inr (cv_add_u8
            \<lparr>rows = 2, cols = 2, mtype = 0, step1 = 2, data = Some 0,
             buf = [U8 5, U8 0, U8 0, U8 0]\<rparr> (Scalar 3 0 0 0)))
       [Some \<lparr>rows = 2, cols = 2, mtype = 0, step1 = 2, data = Some 0,
              buf = [U8 5, U8 0, U8 0, U8 0]\<rparr>]
       (MatObj 0) (Fixnum 3)
     = (Inr (MatObj 1),
        [Some \<lparr>rows = 2, cols = 2, mtype = 0, step1 = 2, data = Some 0,
               buf = [U8 5, U8 0, U8 0, U8 0]\<rparr>,
         Some \<lparr>rows = 2, cols = 2, mtype = 0, step1 = 2, data = Some 0,
               buf = [U8 8, U8 3, U8 3, U8 3]\<rparr>])"
proof -
  have l: "(4::nat) \<le> 4" by simp
  show ?thesis
    using scalar_add_pure [where kern = "\<lambda>call. Inr (cv_add_u8
            \<lparr>rows = 2, cols = 2, mtype = 0, step1 = 2, data = Some 0,
             buf = [U8 5, U8 0, U8 0, U8 0]\<rparr> (Scalar 3 0 0 0))", OF l refl]
    by simp
qed

end
